theory Spec2Isabelle
  imports Main "HOL-Library.AList" "HOL-Library.FSet"
begin

section \<open>The group component: entity classes\<close>

text \<open>
  A shallow embedding of \<^verbatim>\<open>homeassistant/components/group/entity.py\<close>.
  Methods whose Python name starts with an underscore carry the prefix \<open>u_\<close> here,
  as do the private fields of \<^verbatim>\<open>Group\<close>; every method takes the object and returns
  the updated object.  Python sets are finite sets, Python dictionaries that the group
  writes are association lists in insertion order (\<open>AList.update\<close> overwrites an
  existing key in place and appends a new one, as a \<^verbatim>\<open>dict\<close> does), and the
  read-only tables of the registry and of the state machine are maps.
\<close>

subsection \<open>Collaborators outside this module\<close>

text \<open>
  Modelled from the spec: the constants \<^verbatim>\<open>STATE_ON\<close>, \<^verbatim>\<open>STATE_OFF\<close> and
  \<^verbatim>\<open>ATTR_ASSUMED_STATE\<close> of \<^verbatim>\<open>homeassistant.const\<close>, the generic "on" and "off"
  labels and the key of the assumed flag.
\<close>

definition STATE_ON :: string where
  "STATE_ON = ''on''"

definition STATE_OFF :: string where
  "STATE_OFF = ''off''"

definition ATTR_ASSUMED_STATE :: string where
  "ATTR_ASSUMED_STATE = ''assumed_state''"

text \<open>
  A \<^verbatim>\<open>State\<close> object as this module reads it.  The group only ever tests an attribute
  for truth, so an attribute value is kept as its truth value; a key that is absent
  makes \<^verbatim>\<open>attributes.get\<close> return \<^verbatim>\<open>None\<close>, which is false.
\<close>

record State =
  entity_id :: string
  domain :: string
  state :: string
  attributes :: "string \<rightharpoonup> bool"

definition attributes_get :: "State \<Rightarrow> string \<Rightarrow> bool" where
  "attributes_get s k = (case attributes s k of None \<Rightarrow> False | Some b \<Rightarrow> b)"

text \<open>
  The registry \<^verbatim>\<open>GroupIntegrationRegistry\<close> is declared in another module; the group
  reads five tables of it.  Of \<open>on_off_mapping\<close> only the keys are ever read.
\<close>

record GroupIntegrationRegistry =
  on_states_by_domain :: "string \<rightharpoonup> string fset"
  on_off_mapping :: "string \<rightharpoonup> string"
  off_on_mapping :: "string \<rightharpoonup> string"
  off_state_by_domain :: "string \<rightharpoonup> string"
  exclude_domains :: "string fset"

text \<open>
  What this module reads of \<^verbatim>\<open>hass\<close>: the state machine (\<^verbatim>\<open>hass.states.get\<close>), the
  registry stored under \<^verbatim>\<open>hass.data[REG_KEY]\<close> and the flag \<^verbatim>\<open>hass.is_running\<close>.
\<close>

record HomeAssistant =
  states :: "string \<rightharpoonup> State"
  registry :: GroupIntegrationRegistry
  is_running :: bool

text \<open>
  An event of the state machine: its context, and the \<^verbatim>\<open>entity_id\<close> and
  \<^verbatim>\<open>new_state\<close> of its data.
\<close>

record Event =
  event_context :: string
  event_entity_id :: string
  new_state :: "State option"

text \<open>\<^verbatim>\<open>str.lower\<close> on the ASCII letters an entity id is made of.\<close>

definition char_lower :: "char \<Rightarrow> char" where
  "char_lower c =
     (case map_of (zip ''ABCDEFGHIJKLMNOPQRSTUVWXYZ'' ''abcdefghijklmnopqrstuvwxyz'') c of
        None \<Rightarrow> c
      | Some l \<Rightarrow> l)"

definition lower :: "string \<Rightarrow> string" where
  "lower s = map char_lower s"

subsection \<open>The class \<^verbatim>\<open>Group\<close>\<close>

text \<open>\<^verbatim>\<open>self.mode\<close> is one of the builtins \<^verbatim>\<open>any\<close> and \<^verbatim>\<open>all\<close>.\<close>

datatype mode_fn = any | all

fun mode_apply :: "mode_fn \<Rightarrow> bool list \<Rightarrow> bool" where
  "mode_apply any bs = list_ex (\<lambda>b. b) bs"
| "mode_apply all bs = list_all (\<lambda>b. b) bs"

text \<open>
  The subscription handle returned by \<^verbatim>\<open>async_track_state_change_event\<close> is kept as the
  tuple of entity ids it was registered for.  \<open>written\<close> lists the states published by
  \<^verbatim>\<open>async_write_ha_state\<close>, newest first.
\<close>

record Group =
  u_attr_name :: string
  u_attr_icon :: "string option"
  u_state :: "string option"
  tracking :: "string list"
  trackable :: "string list"
  single_active_domain :: "string option"
  u_on_off :: "(string \<times> bool) list"
  u_assumed :: "(string \<times> bool) list"
  u_on_states :: "string fset"
  created_by_service :: bool
  mode :: mode_fn
  u_order :: "int option"
  u_assumed_state :: bool
  u_async_unsub_state_changed :: "string list option"
  u_context :: "string option"
  written :: "string option list"

datatype error = UnboundLocalError

text \<open>Truth of an optional string: \<^verbatim>\<open>None\<close> and the empty string are false.\<close>

fun truthy :: "string option \<Rightarrow> bool" where
  "truthy None = False"
| "truthy (Some s) = (s \<noteq> [])"

text \<open>
  The loop of \<^verbatim>\<open>_set_tracked\<close>.  The accumulator holds the two lists being built,
  \<^verbatim>\<open>self.single_active_domain\<close> and \<^verbatim>\<open>multiple_domains\<close>.  \<open>split\<close> is
  \<^verbatim>\<open>split_entity_id\<close> of \<^verbatim>\<open>homeassistant.core\<close>, a parameter.
\<close>

fun set_tracked_loop ::
  "(string \<Rightarrow> string \<times> string) \<Rightarrow> string fset \<Rightarrow> string list \<Rightarrow>
   string list \<times> string list \<times> string option \<times> bool \<Rightarrow>
   string list \<times> string list \<times> string option \<times> bool" where
  "set_tracked_loop split excluded_domains [] acc = acc"
| "set_tracked_loop split excluded_domains (ent_id # entity_ids) (tracking_l, trackable_l, sad, multiple_domains) =
     (let ent_id_lower = lower ent_id;
          dom = fst (split ent_id_lower);
          tracking_l = tracking_l @ [ent_id_lower]
      in if dom |\<in>| excluded_domains
         then set_tracked_loop split excluded_domains entity_ids (tracking_l, trackable_l, sad, multiple_domains)
         else
           let trackable_l = trackable_l @ [ent_id_lower];
               sad = (if \<not> multiple_domains \<and> sad = None then Some dom else sad)
           in if sad \<noteq> Some dom
              then set_tracked_loop split excluded_domains entity_ids (tracking_l, trackable_l, None, True)
              else set_tracked_loop split excluded_domains entity_ids (tracking_l, trackable_l, sad, multiple_domains))"

definition u_set_tracked ::
  "(string \<Rightarrow> string \<times> string) \<Rightarrow> HomeAssistant \<Rightarrow> Group \<Rightarrow> string list option \<Rightarrow> Group" where
  "u_set_tracked split hass self entity_ids =
     (case entity_ids of
        None \<Rightarrow> self\<lparr>tracking := [], trackable := [], single_active_domain := None\<rparr>
      | Some ids \<Rightarrow>
          if ids = []
          then self\<lparr>tracking := [], trackable := [], single_active_domain := None\<rparr>
          else
            (case set_tracked_loop split (exclude_domains (registry hass)) ids ([], [], None, False) of
               (tracking_l, trackable_l, sad, multiple_domains) \<Rightarrow>
                 self\<lparr>tracking := tracking_l, trackable := trackable_l, single_active_domain := sad\<rparr>))"

definition u_see_state :: "HomeAssistant \<Rightarrow> Group \<Rightarrow> State \<Rightarrow> Group" where
  "u_see_state hass self new_st =
     (let reg = registry hass;
          self = self\<lparr>u_assumed :=
                   AList.update (entity_id new_st) (attributes_get new_st ATTR_ASSUMED_STATE) (u_assumed self)\<rparr>
      in case on_states_by_domain reg (domain new_st) of
           None \<Rightarrow>
             (let self =
                    (if on_off_mapping reg (state new_st) \<noteq> None
                     then self\<lparr>u_on_states := finsert (state new_st) (u_on_states self)\<rparr>
                     else case off_on_mapping reg (state new_st) of
                            Some on_label \<Rightarrow> self\<lparr>u_on_states := finsert on_label (u_on_states self)\<rparr>
                          | None \<Rightarrow> self)
              in self\<lparr>u_on_off :=
                        AList.update (entity_id new_st) (on_off_mapping reg (state new_st) \<noteq> None) (u_on_off self)\<rparr>)
         | Some entity_on_state \<Rightarrow>
             self\<lparr>u_on_states := u_on_states self |\<union>| entity_on_state,
                  u_on_off := AList.update (entity_id new_st) (state new_st |\<in>| entity_on_state) (u_on_off self)\<rparr>)"

fun reset_loop :: "HomeAssistant \<Rightarrow> string list \<Rightarrow> Group \<Rightarrow> Group" where
  "reset_loop hass [] self = self"
| "reset_loop hass (ent # ents) self =
     (case states hass ent of
        None \<Rightarrow> reset_loop hass ents self
      | Some st \<Rightarrow> reset_loop hass ents (u_see_state hass self st))"

definition u_reset_tracked_state :: "HomeAssistant \<Rightarrow> Group \<Rightarrow> Group" where
  "u_reset_tracked_state hass self =
     reset_loop hass (trackable self) (self\<lparr>u_on_off := [], u_assumed := [], u_on_states := {||}\<rparr>)"

text \<open>
  The loop of \<^verbatim>\<open>_detect_specific_on_off_state\<close> over the two sets it fills; the
  \<^verbatim>\<open>break\<close> returns the accumulator at once.
\<close>

fun detect_loop ::
  "HomeAssistant \<Rightarrow> bool \<Rightarrow> string list \<Rightarrow> string fset \<times> string fset \<Rightarrow> string fset \<times> string fset" where
  "detect_loop hass group_is_on [] acc = acc"
| "detect_loop hass group_is_on (ent # ents) (active_on_states, active_off_states) =
     (case states hass ent of
        None \<Rightarrow> detect_loop hass group_is_on ents (active_on_states, active_off_states)
      | Some st \<Rightarrow>
          let current_state = state st in
          if group_is_on \<and>
             (case on_states_by_domain (registry hass) (domain st) of
                None \<Rightarrow> False
              | Some domain_on_states \<Rightarrow> domain_on_states \<noteq> {||} \<and> current_state |\<in>| domain_on_states)
          then
            let active_on_states = finsert current_state active_on_states
            in if fcard active_on_states > 1
               then (active_on_states, active_off_states)
               else detect_loop hass group_is_on ents (active_on_states, active_off_states)
          else if off_on_mapping (registry hass) current_state \<noteq> None
          then detect_loop hass group_is_on ents (active_on_states, finsert current_state active_off_states)
          else detect_loop hass group_is_on ents (active_on_states, active_off_states))"

definition u_detect_specific_on_off_state :: "HomeAssistant \<Rightarrow> Group \<Rightarrow> bool \<Rightarrow> string fset" where
  "u_detect_specific_on_off_state hass self group_is_on =
     (case detect_loop hass group_is_on (trackable self) ({||}, {||}) of
        (active_on_states, active_off_states) \<Rightarrow>
          if group_is_on then active_on_states else active_off_states)"

text \<open>
  The statement of \<^verbatim>\<open>_async_update_group_state\<close> that sets \<^verbatim>\<open>self._assumed_state\<close>:
  the \<^verbatim>\<open>if\<close> on \<^verbatim>\<open>tr_state is None or ...\<close> and its \<^verbatim>\<open>elif\<close>.
\<close>

definition update_assumed_state :: "Group \<Rightarrow> State option \<Rightarrow> Group" where
  "update_assumed_state self tr_state =
     (case tr_state of
        None \<Rightarrow> self\<lparr>u_assumed_state := mode_apply (mode self) (map snd (u_assumed self))\<rparr>
      | Some tr \<Rightarrow>
          if u_assumed_state self \<and> \<not> attributes_get tr ATTR_ASSUMED_STATE
          then self\<lparr>u_assumed_state := mode_apply (mode self) (map snd (u_assumed self))\<rparr>
          else if attributes_get tr ATTR_ASSUMED_STATE
          then self\<lparr>u_assumed_state := True\<rparr>
          else self)"

text \<open>
  The chain of branches that binds the local \<^verbatim>\<open>on_state\<close>, from
  \<^verbatim>\<open>if num_on_states == 1\<close> to \<^verbatim>\<open>elif group_is_on\<close>; \<open>None\<close> when no branch ran.
\<close>

definition on_state_local :: "HomeAssistant \<Rightarrow> Group \<Rightarrow> bool \<Rightarrow> string option" where
  "on_state_local hass self group_is_on =
     (let num_on_states = fcard (u_on_states self)
      in if num_on_states = 1 then Some (fthe_elem (u_on_states self))
         else if truthy (single_active_domain self) \<and> num_on_states \<noteq> 0
         then
           (let active_on_states = u_detect_specific_on_off_state hass self True
            in Some (if fcard active_on_states = 1 then fthe_elem active_on_states else STATE_ON))
         else if group_is_on then Some STATE_ON
         else None)"

text \<open>
  The lookup \<^verbatim>\<open>(active_domain := self.single_active_domain) and active_domain in
  registry.off_state_by_domain\<close>, with the label it then reads.
\<close>

definition domain_off_state :: "HomeAssistant \<Rightarrow> Group \<Rightarrow> string option" where
  "domain_off_state hass self =
     (case single_active_domain self of
        None \<Rightarrow> None
      | Some active_domain \<Rightarrow>
          if active_domain = [] then None
          else off_state_by_domain (registry hass) active_domain)"

text \<open>
  \<^verbatim>\<open>_async_update_group_state\<close>.  Reading the local \<^verbatim>\<open>on_state\<close> while it is unbound
  is the error \<open>UnboundLocalError\<close>.
\<close>

definition u_async_update_group_state :: "HomeAssistant \<Rightarrow> Group \<Rightarrow> State option \<Rightarrow> error + Group" where
  "u_async_update_group_state hass self tr_state =
     (let self = (case tr_state of None \<Rightarrow> self | Some tr \<Rightarrow> u_see_state hass self tr)
      in if u_on_off self = [] then Inr self
         else
           let self = update_assumed_state self tr_state;
               num_on_states = fcard (u_on_states self)
           in if num_on_states = 0 then Inr (self\<lparr>u_state := None\<rparr>)
              else
                let group_is_on = mode_apply (mode self) (map snd (u_on_off self));
                    on_state = on_state_local hass self group_is_on
                in if group_is_on
                   then (case on_state of
                           None \<Rightarrow> Inl UnboundLocalError
                         | Some on_label \<Rightarrow> Inr (self\<lparr>u_state := Some on_label\<rparr>))
                   else
                     (case domain_off_state hass self of
                        Some off_label \<Rightarrow> Inr (self\<lparr>u_state := Some off_label\<rparr>)
                      | None \<Rightarrow>
                          let active_off_states = u_detect_specific_on_off_state hass self False
                          in Inr (self\<lparr>u_state :=
                                    Some (if fcard active_off_states = 1
                                          then fthe_elem active_off_states else STATE_OFF)\<rparr>)))"

text \<open>The methods of the host framework the group calls on itself.\<close>

definition async_write_ha_state :: "Group \<Rightarrow> Group" where
  "async_write_ha_state self = self\<lparr>written := u_state self # written self\<rparr>"

definition async_set_context :: "Group \<Rightarrow> string \<Rightarrow> Group" where
  "async_set_context self c = self\<lparr>u_context := Some c\<rparr>"

definition u_async_start_tracking :: "HomeAssistant \<Rightarrow> Group \<Rightarrow> error + Group" where
  "u_async_start_tracking hass self =
     (let self =
            (if trackable self \<noteq> [] \<and> u_async_unsub_state_changed self = None
             then self\<lparr>u_async_unsub_state_changed := Some (trackable self)\<rparr>
             else self)
      in u_async_update_group_state hass self None)"

definition u_async_start :: "HomeAssistant \<Rightarrow> Group \<Rightarrow> error + Group" where
  "u_async_start hass self =
     (case u_async_start_tracking hass (u_reset_tracked_state hass self) of
        Inl e \<Rightarrow> Inl e
      | Inr self \<Rightarrow> Inr (async_write_ha_state self))"

definition u_async_stop :: "Group \<Rightarrow> Group" where
  "u_async_stop self =
     (if u_async_unsub_state_changed self \<noteq> None
      then self\<lparr>u_async_unsub_state_changed := None\<rparr>
      else self)"

definition async_update_group_state :: "HomeAssistant \<Rightarrow> Group \<Rightarrow> error + Group" where
  "async_update_group_state hass self =
     u_async_update_group_state hass (self\<lparr>u_state := None\<rparr>) None"

definition u_async_state_changed_listener :: "HomeAssistant \<Rightarrow> Group \<Rightarrow> Event \<Rightarrow> error + Group" where
  "u_async_state_changed_listener hass self event =
     (if u_async_unsub_state_changed self = None then Inr self
      else
        let self = async_set_context self (event_context event);
            self = (if new_state event = None then u_reset_tracked_state hass self else self)
        in case u_async_update_group_state hass self (new_state event) of
             Inl e \<Rightarrow> Inl e
           | Inr self \<Rightarrow> Inr (async_write_ha_state self))"

definition async_update_tracked_entity_ids ::
  "(string \<Rightarrow> string \<times> string) \<Rightarrow> HomeAssistant \<Rightarrow> Group \<Rightarrow> string list option \<Rightarrow> error + Group" where
  "async_update_tracked_entity_ids split hass self entity_ids =
     u_async_start hass
       (u_reset_tracked_state hass (u_set_tracked split hass (u_async_stop self) entity_ids))"

text \<open>\<^verbatim>\<open>Group.__init__\<close>; \<open>md\<close> is its argument \<^verbatim>\<open>mode\<close>.\<close>

definition Group_init ::
  "(string \<Rightarrow> string \<times> string) \<Rightarrow> HomeAssistant \<Rightarrow> string \<Rightarrow> bool \<Rightarrow> string list option \<Rightarrow>
   string option \<Rightarrow> bool option \<Rightarrow> int option \<Rightarrow> Group" where
  "Group_init split hass name cbs entity_ids icon md order =
     (u_set_tracked split hass
        \<lparr>u_attr_name = name, u_attr_icon = icon, u_state = None,
         tracking = [], trackable = [], single_active_domain = None,
         u_on_off = [], u_assumed = [], u_on_states = {||},
         created_by_service = False, mode = any, u_order = None,
         u_assumed_state = False, u_async_unsub_state_changed = None,
         u_context = None, written = []\<rparr> entity_ids)
       \<lparr>u_on_off := [], u_assumed := [], u_on_states := {||},
        created_by_service := cbs,
        mode := (if md = Some True then all else any),
        u_order := order, u_assumed_state := False,
        u_async_unsub_state_changed := None\<rparr>"

subsection \<open>The class \<^verbatim>\<open>GroupEntity\<close>\<close>

text \<open>
  \<^verbatim>\<open>GroupEntity\<close> is the base class of the typed groups.  Its object is kept together
  with what its methods reach through \<^verbatim>\<open>self.hass\<close>: \<open>ge_fields\<close> is whatever a
  subclass stores on the object, \<open>ge_written\<close> lists what \<^verbatim>\<open>async_write_ha_state\<close> has
  published to the state machine (newest first), \<open>ge_tracked\<close> is the list of live
  subscriptions of the event helper with their handles, \<open>ge_on_remove\<close> the handles
  passed to \<^verbatim>\<open>async_on_remove\<close>, and \<open>ge_previewed\<close> the calls made to a preview callback.
\<close>

datatype listener = Preview_listener | Added_listener | At_start_listener

record ('a, 'c) GroupEntity =
  ge_entity_ids :: "string list"
  ge_fields :: 'a
  ge_context :: "string option"
  ge_written :: "'c list"
  ge_tracked :: "(nat \<times> string list \<times> listener) list"
  ge_next_handle :: nat
  ge_on_remove :: "nat list"
  ge_previewed :: "'c list"

text \<open>
  The methods a subclass supplies: the abstract \<^verbatim>\<open>async_update_group_state\<close>, the hook
  \<^verbatim>\<open>async_update_supported_features\<close>, and \<^verbatim>\<open>_async_calculate_state\<close> of the host
  framework, which returns the state and attributes to publish.
\<close>

record ('a, 'c) GroupEntity_methods =
  m_async_update_group_state :: "('a, 'c) GroupEntity \<Rightarrow> ('a, 'c) GroupEntity"
  m_async_update_supported_features ::
    "string \<Rightarrow> State option \<Rightarrow> ('a, 'c) GroupEntity \<Rightarrow> ('a, 'c) GroupEntity"
  m_async_calculate_state :: "('a, 'c) GroupEntity \<Rightarrow> 'c"

text \<open>
  Modelled from the spec: \<^verbatim>\<open>async_track_state_change_event\<close> of the event helper, the
  \<^verbatim>\<open>subscribe(entityIds, onChange) -> Handle\<close> of the state store.  It registers the
  listener under a fresh handle and returns the handle; calling the handle removes that
  subscription and no other.
\<close>

definition async_track_state_change_event ::
  "string list \<Rightarrow> listener \<Rightarrow> ('a, 'c) GroupEntity \<Rightarrow> nat \<times> ('a, 'c) GroupEntity" where
  "async_track_state_change_event entity_ids l self =
     (ge_next_handle self,
      self\<lparr>ge_tracked := ge_tracked self @ [(ge_next_handle self, entity_ids, l)],
           ge_next_handle := Suc (ge_next_handle self)\<rparr>)"

definition call_unsub :: "nat \<Rightarrow> ('a, 'c) GroupEntity \<Rightarrow> ('a, 'c) GroupEntity" where
  "call_unsub h self = self\<lparr>ge_tracked := filter (\<lambda>sub. fst sub \<noteq> h) (ge_tracked self)\<rparr>"

text \<open>
  Modelled from the spec: \<^verbatim>\<open>async_write_ha_state\<close> of the host framework, which
  publishes the calculated state ("run 4.3.3, then publish the new state/attributes").
\<close>

definition ge_async_write_ha_state ::
  "('a, 'c) GroupEntity_methods \<Rightarrow> ('a, 'c) GroupEntity \<Rightarrow> ('a, 'c) GroupEntity" where
  "ge_async_write_ha_state ms self = self\<lparr>ge_written := m_async_calculate_state ms self # ge_written self\<rparr>"

text \<open>The loop over \<^verbatim>\<open>self._entity_ids\<close> that opens both \<^verbatim>\<open>async_start_preview\<close> and
  \<^verbatim>\<open>async_added_to_hass\<close>.\<close>

fun features_loop ::
  "('a, 'c) GroupEntity_methods \<Rightarrow> HomeAssistant \<Rightarrow> string list \<Rightarrow> ('a, 'c) GroupEntity \<Rightarrow>
   ('a, 'c) GroupEntity" where
  "features_loop ms hass [] self = self"
| "features_loop ms hass (ent # ents) self =
     (case states hass ent of
        None \<Rightarrow> features_loop ms hass ents self
      | Some st \<Rightarrow> features_loop ms hass ents (m_async_update_supported_features ms ent (Some st) self))"

text \<open>The listener that \<^verbatim>\<open>async_start_preview\<close> defines and registers.\<close>

definition preview_listener ::
  "('a, 'c) GroupEntity_methods \<Rightarrow> ('a, 'c) GroupEntity \<Rightarrow> Event option \<Rightarrow> ('a, 'c) GroupEntity" where
  "preview_listener ms self event =
     (let self = m_async_update_group_state ms self;
          self = (case event of
                    None \<Rightarrow> self
                  | Some ev \<Rightarrow> m_async_update_supported_features ms (event_entity_id ev) (new_state ev) self);
          calculated_state = m_async_calculate_state ms self
      in self\<lparr>ge_previewed := ge_previewed self @ [calculated_state]\<rparr>)"

definition async_start_preview ::
  "('a, 'c) GroupEntity_methods \<Rightarrow> HomeAssistant \<Rightarrow> ('a, 'c) GroupEntity \<Rightarrow> nat \<times> ('a, 'c) GroupEntity" where
  "async_start_preview ms hass self =
     (let self = features_loop ms hass (ge_entity_ids self) self;
          self = preview_listener ms self None
      in async_track_state_change_event (ge_entity_ids self) Preview_listener self)"

definition async_defer_or_update_ha_state ::
  "('a, 'c) GroupEntity_methods \<Rightarrow> HomeAssistant \<Rightarrow> ('a, 'c) GroupEntity \<Rightarrow> ('a, 'c) GroupEntity" where
  "async_defer_or_update_ha_state ms hass self =
     (if \<not> is_running hass then self
      else ge_async_write_ha_state ms (m_async_update_group_state ms self))"

definition u_update_at_start ::
  "('a, 'c) GroupEntity_methods \<Rightarrow> ('a, 'c) GroupEntity \<Rightarrow> ('a, 'c) GroupEntity" where
  "u_update_at_start ms self = ge_async_write_ha_state ms (m_async_update_group_state ms self)"

text \<open>The listener that \<^verbatim>\<open>async_added_to_hass\<close> defines and registers.\<close>

definition added_listener ::
  "('a, 'c) GroupEntity_methods \<Rightarrow> HomeAssistant \<Rightarrow> ('a, 'c) GroupEntity \<Rightarrow> Event \<Rightarrow> ('a, 'c) GroupEntity" where
  "added_listener ms hass self event =
     (let self = self\<lparr>ge_context := Some (event_context event)\<rparr>;
          self = m_async_update_supported_features ms (event_entity_id event) (new_state event) self
      in async_defer_or_update_ha_state ms hass self)"

definition async_added_to_hass ::
  "('a, 'c) GroupEntity_methods \<Rightarrow> HomeAssistant \<Rightarrow> ('a, 'c) GroupEntity \<Rightarrow> ('a, 'c) GroupEntity" where
  "async_added_to_hass ms hass self =
     (let self = features_loop ms hass (ge_entity_ids self) self;
          (h, self) = async_track_state_change_event (ge_entity_ids self) Added_listener self;
          self = self\<lparr>ge_on_remove := ge_on_remove self @ [h]\<rparr>;
          (h', self) = async_track_state_change_event [] At_start_listener self
      in self\<lparr>ge_on_remove := ge_on_remove self @ [h']\<rparr>)"

text \<open>
  A run of the preview path: previews are started and notifications are delivered to
  the preview listener, in any order and number.  The result carries the handles that
  the started previews returned.
\<close>

datatype preview_step = Start_preview HomeAssistant | Notify Event

fun run_preview ::
  "('a, 'c) GroupEntity_methods \<Rightarrow> preview_step list \<Rightarrow> nat list \<times> ('a, 'c) GroupEntity \<Rightarrow>
   nat list \<times> ('a, 'c) GroupEntity" where
  "run_preview ms [] acc = acc"
| "run_preview ms (Start_preview hass # steps) (hs, self) =
     (case async_start_preview ms hass self of
        (h, self) \<Rightarrow> run_preview ms steps (hs @ [h], self))"
| "run_preview ms (Notify event # steps) (hs, self) =
     run_preview ms steps (hs, preview_listener ms self (Some event))"

subsection \<open>Predicates used in the statements\<close>

text \<open>The entity ids a caller passed, \<^verbatim>\<open>None\<close> read as no ids.\<close>

definition ids_given :: "string list option \<Rightarrow> string list" where
  "ids_given entity_ids = (case entity_ids of None \<Rightarrow> [] | Some ids \<Rightarrow> ids)"

text \<open>
  The contract of the state machine that the group relies on: the state returned for an
  entity id carries that entity id.
\<close>

definition states_keyed :: "HomeAssistant \<Rightarrow> bool" where
  "states_keyed hass = (\<forall>k s. states hass k = Some s \<longrightarrow> entity_id s = k)"

text \<open>
  The three caches are filled together: while no member is known, no on-label is known.
  The constructor establishes this and every method keeps it (lemmas \<open>cache_inv_*\<close>).
\<close>

definition cache_inv :: "Group \<Rightarrow> bool" where
  "cache_inv self = (u_on_off self = [] \<longrightarrow> u_on_states self = {||})"

text \<open>
  The invariant of the loop of \<^verbatim>\<open>_set_tracked\<close>, over the trackable members seen so far.
\<close>

definition domains_inv ::
  "(string \<Rightarrow> string \<times> string) \<Rightarrow> string list \<Rightarrow> string option \<Rightarrow> bool \<Rightarrow> bool" where
  "domains_inv split tb sad md =
     (if md then sad = None \<and> (\<exists>x\<in>set tb. \<exists>y\<in>set tb. fst (split x) \<noteq> fst (split y))
      else case sad of
             None \<Rightarrow> tb = []
           | Some d \<Rightarrow> tb \<noteq> [] \<and> (\<forall>x\<in>set tb. fst (split x) = d))"

text \<open>
  A preview must not publish: a method of a subclass respects the frame when it leaves
  the published states and the subscriptions of the event helper as they are.
\<close>

definition keeps_committed :: "(('a, 'c) GroupEntity \<Rightarrow> ('a, 'c) GroupEntity) \<Rightarrow> bool" where
  "keeps_committed f =
     (\<forall>self. ge_written (f self) = ge_written self \<and> ge_tracked (f self) = ge_tracked self \<and>
             ge_next_handle (f self) = ge_next_handle self)"

definition methods_keep_committed :: "('a, 'c) GroupEntity_methods \<Rightarrow> bool" where
  "methods_keep_committed ms =
     (keeps_committed (m_async_update_group_state ms) \<and>
      (\<forall>ent st. keeps_committed (m_async_update_supported_features ms ent st)))"

text \<open>Handles are fresh: every live subscription has a handle below the next one.\<close>

definition handles_fresh :: "('a, 'c) GroupEntity \<Rightarrow> bool" where
  "handles_fresh self = (\<forall>sub\<in>set (ge_tracked self). fst sub < ge_next_handle self)"

subsection \<open>Concrete inputs\<close>

text \<open>
  A registry with lights and device trackers, sensors excluded, and a state machine in
  which \<^verbatim>\<open>light.a\<close> is on, is off, or has been removed.
\<close>

definition ex_split :: "string \<Rightarrow> string \<times> string" where
  "ex_split s = (takeWhile (\<lambda>c. c \<noteq> CHR ''.'') s, drop 1 (dropWhile (\<lambda>c. c \<noteq> CHR ''.'') s))"

definition ex_registry :: GroupIntegrationRegistry where
  "ex_registry =
     \<lparr>on_states_by_domain = [''light'' \<mapsto> {|''on''|}, ''device_tracker'' \<mapsto> {|''home''|}],
      on_off_mapping = [''on'' \<mapsto> ''off'', ''home'' \<mapsto> ''not_home''],
      off_on_mapping = [''off'' \<mapsto> ''on'', ''not_home'' \<mapsto> ''home''],
      off_state_by_domain = [''light'' \<mapsto> ''off'', ''device_tracker'' \<mapsto> ''not_home''],
      exclude_domains = {|''sensor''|}\<rparr>"

definition ex_light_a_on :: State where
  "ex_light_a_on =
     \<lparr>entity_id = ''light.a'', domain = ''light'', state = ''on'', attributes = Map.empty\<rparr>"

definition ex_light_a_off :: State where
  "ex_light_a_off =
     \<lparr>entity_id = ''light.a'', domain = ''light'', state = ''off'', attributes = Map.empty\<rparr>"

definition ex_light_a_assumed :: State where
  "ex_light_a_assumed =
     \<lparr>entity_id = ''light.a'', domain = ''light'', state = ''on'',
      attributes = [''assumed_state'' \<mapsto> True]\<rparr>"

definition ex_light_a_unavailable :: State where
  "ex_light_a_unavailable =
     \<lparr>entity_id = ''light.a'', domain = ''light'', state = ''unavailable'', attributes = Map.empty\<rparr>"

definition ex_hass_on :: HomeAssistant where
  "ex_hass_on = \<lparr>states = [''light.a'' \<mapsto> ex_light_a_on], registry = ex_registry, is_running = True\<rparr>"

definition ex_hass_off :: HomeAssistant where
  "ex_hass_off = \<lparr>states = [''light.a'' \<mapsto> ex_light_a_off], registry = ex_registry, is_running = True\<rparr>"

definition ex_hass_removed :: HomeAssistant where
  "ex_hass_removed = \<lparr>states = Map.empty, registry = ex_registry, is_running = True\<rparr>"

definition ex_ids :: "string list option" where
  "ex_ids = Some [''Light.A'', ''sensor.x'', ''light.b'']"

definition ex_group_new :: Group where
  "ex_group_new = Group_init ex_split ex_hass_on ''g'' False ex_ids None None None"

text \<open>The group above once started while \<^verbatim>\<open>light.a\<close> is on (lemma \<open>ex_group_on_reached\<close>).\<close>

definition ex_group_on :: Group where
  "ex_group_on =
     \<lparr>u_attr_name = ''g'', u_attr_icon = None, u_state = Some ''on'',
      tracking = [''light.a'', ''sensor.x'', ''light.b''], trackable = [''light.a'', ''light.b''],
      single_active_domain = Some ''light'',
      u_on_off = [(''light.a'', True)], u_assumed = [(''light.a'', False)], u_on_states = {|''on''|},
      created_by_service = False, mode = any, u_order = None, u_assumed_state = False,
      u_async_unsub_state_changed = Some [''light.a'', ''light.b''],
      u_context = None, written = [Some ''on'']\<rparr>"

definition ex_event_removed :: Event where
  "ex_event_removed = \<lparr>event_context = ''c1'', event_entity_id = ''light.a'', new_state = None\<rparr>"

section \<open>Properties\<close>

subsection \<open>What observing a member leaves alone\<close>

lemma see_state_on_off_nonempty [simp]:
  "u_on_off (u_see_state hass self st) \<noteq> []"
  by (simp add: u_see_state_def Let_def split: option.splits)

lemma see_state_frame [simp]:
  "u_assumed_state (u_see_state hass self st) = u_assumed_state self"
  "mode (u_see_state hass self st) = mode self"
  "trackable (u_see_state hass self st) = trackable self"
  "tracking (u_see_state hass self st) = tracking self"
  "single_active_domain (u_see_state hass self st) = single_active_domain self"
  "u_state (u_see_state hass self st) = u_state self"
  "u_async_unsub_state_changed (u_see_state hass self st) = u_async_unsub_state_changed self"
  by (simp_all add: u_see_state_def Let_def split: option.splits)

lemma update_assumed_frame [simp]:
  "u_on_off (update_assumed_state self tr) = u_on_off self"
  "u_on_states (update_assumed_state self tr) = u_on_states self"
  "mode (update_assumed_state self tr) = mode self"
  "single_active_domain (update_assumed_state self tr) = single_active_domain self"
  "trackable (update_assumed_state self tr) = trackable self"
  "u_assumed (update_assumed_state self tr) = u_assumed self"
  "u_state (update_assumed_state self tr) = u_state self"
  by (simp_all add: update_assumed_state_def split: option.splits)

lemma reset_loop_frame [simp]:
  "trackable (reset_loop hass ents self) = trackable self"
  "tracking (reset_loop hass ents self) = tracking self"
  "single_active_domain (reset_loop hass ents self) = single_active_domain self"
  "u_state (reset_loop hass ents self) = u_state self"
  by (induction ents arbitrary: self) (simp_all split: option.splits)

lemmas ex_defs =
  ex_split_def ex_registry_def ex_light_a_on_def ex_light_a_off_def ex_light_a_assumed_def
  ex_light_a_unavailable_def ex_hass_on_def ex_hass_off_def ex_hass_removed_def ex_ids_def
  ex_group_new_def ex_group_on_def ex_event_removed_def

lemmas group_defs =
  Group_init_def u_set_tracked_def Let_def lower_def char_lower_def
  u_async_start_def u_async_start_tracking_def u_reset_tracked_state_def u_see_state_def
  u_async_update_group_state_def update_assumed_state_def on_state_local_def domain_off_state_def
  u_detect_specific_on_off_state_def attributes_get_def ATTR_ASSUMED_STATE_def STATE_ON_def
  STATE_OFF_def async_write_ha_state_def async_set_context_def u_async_stop_def
  u_async_state_changed_listener_def async_update_group_state_def fcard_finsert_if

lemma ex_group_on_reached: "u_async_start ex_hass_on ex_group_new = Inr ex_group_on"
  by (simp add: ex_defs group_defs)

subsection \<open>The listener after unsubscribing\<close>

text \<open>
  Claim C10.  A state-change event delivered while the subscription handle is
  \<^verbatim>\<open>None\<close> makes \<^verbatim>\<open>_async_state_changed_listener\<close> return at once: the whole group
  object, so its three caches, its state and its assumed flag, is the same after the call
  as before.  That is the case after \<^verbatim>\<open>_async_stop\<close>.
\<close>

theorem listener_unsubscribed_returns:
  "(u_async_unsub_state_changed self = None \<longrightarrow>
      u_async_state_changed_listener hass self event = Inr self) \<and>
   u_async_state_changed_listener hass (u_async_stop self) event = Inr (u_async_stop self)"
  by (simp add: u_async_state_changed_listener_def u_async_stop_def)

theorem listener_unsubscribed_returns_witness:
  "u_async_unsub_state_changed (u_async_stop ex_group_on) = None \<and>
   u_async_state_changed_listener ex_hass_off (u_async_stop ex_group_on) ex_event_removed =
     Inr (u_async_stop ex_group_on)"
  using listener_unsubscribed_returns [of "u_async_stop ex_group_on" ex_hass_off ex_event_removed]
  by (simp add: u_async_stop_def ex_group_on_def)

subsection \<open>The local \<^verbatim>\<open>on_state\<close>\<close>

text \<open>
  Claim C8.  In \<^verbatim>\<open>_async_update_group_state\<close> the local \<^verbatim>\<open>on_state\<close> is bound
  whenever the group is on, by one of the three branches, and it is read only when the
  group is on: the method never fails with \<^verbatim>\<open>UnboundLocalError\<close>, it always returns.
\<close>

theorem on_state_bound_when_read:
  "(group_is_on \<longrightarrow> on_state_local hass self group_is_on \<noteq> None) \<and>
   (\<exists>g. u_async_update_group_state hass self tr_state = Inr g)"
  by (auto simp: u_async_update_group_state_def Let_def on_state_local_def split: option.splits)

theorem on_state_bound_when_read_witness:
  "on_state_local ex_hass_on ex_group_on True = Some ''on'' \<and>
   u_async_update_group_state ex_hass_on ex_group_on (Some ex_light_a_on) = Inr ex_group_on"
  using on_state_bound_when_read [of True ex_hass_on ex_group_on "Some ex_light_a_on"]
  by (simp add: ex_defs group_defs)

end
